theory Spec2Isabelle
  imports Complex_Main
begin

section \<open>Data model of \<open>main.py\<close>\<close>

text \<open>
  The server keeps three module-level globals: the dict \<open>active_clients\<close>
  (sid to the \<open>time.monotonic()\<close> reading taken at connect), the flag
  \<open>shutdown_requested\<close> and \<open>shutdown_start_time\<close> (\<open>None\<close> until shutdown).
  Clock readings are Python floats; they are idealised as reals, no claim below
  depends on rounding. A Python dict keeps its keys in insertion order, and the
  forced disconnection iterates over \<open>list(active_clients)\<close>, so the dict is an
  association list in insertion order.
\<close>

type_synonym sid = string

datatype pyval =
    PNone
  | PBool bool
  | PInt int
  | PFloat real
  | PStr string
  | PList "pyval list"
  | PDict "(string \<times> pyval) list"

text \<open>
  One call of \<open>sio.emit(event, data, to=...)\<close>. \<open>ev_to\<close> is the \<open>to\<close> keyword
  argument, \<open>None\<close> when the call does not pass it.
\<close>

record emit_call =
  ev_name :: string
  ev_data :: pyval
  ev_to :: "sid option"

datatype py_error = KeyError | TypeError

text \<open>The state of the asyncio task created from \<open>broadcaster()\<close>.\<close>

datatype task_status = Pending | Returned | Cancelled

text \<open>
  What the shutdown path of \<open>lifespan\<close> does, in order. \<open>APoll n st\<close> is one
  evaluation of the loop condition \<open>len(active_clients) > 0\<close> (line 52) that
  read the size \<open>n\<close> while the broadcaster task was in state \<open>st\<close>; the
  check of line 61 follows the last of them with no \<open>await\<close> in between and
  reads the same size. \<open>ASleep t\<close> is one
  \<open>await asyncio.sleep(5)\<close> followed by the clock reading \<open>t\<close> of line 59;
  \<open>AForce sid\<close> is one \<open>sio.disconnect(sid, ignore_queue=True)\<close>.
\<close>

datatype action =
    ASetFlag
  | ARecordStart real
  | APoll nat task_status
  | ASleep real
  | AForce sid
  | ACancel
  | AAwait

record server =
  active_clients :: "(sid \<times> real) list"
  shutdown_requested :: bool
  shutdown_start_time :: "real option"
  bg_counter :: int
  bg_status :: task_status
  emitted :: "emit_call list"
  trace :: "action list"

definition MAX_GRACE_PERIOD :: real where
  "MAX_GRACE_PERIOD = 30 * 60"

text \<open>The module just imported and the broadcaster task just created (line 32).\<close>

definition initial :: server where
  "initial = \<lparr>active_clients = [], shutdown_requested = False,
     shutdown_start_time = None, bg_counter = 0, bg_status = Pending,
     emitted = [], trace = []\<rparr>"

subsection \<open>Dict operations\<close>

fun dict_contains :: "sid \<Rightarrow> (sid \<times> 'v) list \<Rightarrow> bool" where
  "dict_contains k [] = False"
| "dict_contains k (p # d) = (fst p = k \<or> dict_contains k d)"

text \<open>\<open>d[k] = v\<close>: overwrite in place when the key is there, append otherwise.\<close>

fun dict_setitem :: "sid \<Rightarrow> 'v \<Rightarrow> (sid \<times> 'v) list \<Rightarrow> (sid \<times> 'v) list" where
  "dict_setitem k v [] = [(k, v)]"
| "dict_setitem k v (p # d) = (if fst p = k then (k, v) # d else p # dict_setitem k v d)"

text \<open>\<open>del d[k]\<close> raises \<open>KeyError\<close> on a missing key.\<close>

definition dict_delitem :: "sid \<Rightarrow> (sid \<times> 'v) list \<Rightarrow> py_error + (sid \<times> 'v) list" where
  "dict_delitem k d =
     (if dict_contains k d then Inr (filter (\<lambda>p. fst p \<noteq> k) d) else Inl KeyError)"

definition dict_keys :: "(sid \<times> 'v) list \<Rightarrow> sid list" where
  "dict_keys d = map fst d"

subsection \<open>Decimal rendering of the f-string\<close>

definition digit_char :: "nat \<Rightarrow> char" where
  "digit_char n = ''0123456789'' ! n"

fun str_nat :: "nat \<Rightarrow> string" where
  "str_nat n = (if n < 10 then [digit_char n] else str_nat (n div 10) @ [digit_char (n mod 10)])"

declare str_nat.simps [simp del]

definition str_int :: "int \<Rightarrow> string" where
  "str_int i = (if i < 0 then CHR ''-'' # str_nat (nat (- i)) else str_nat (nat i))"

text \<open>
  Reading a decimal numeral back, the way Python's \<open>int(text)\<close> does, and the
  shape of the text that formatting an int gives: an optional minus sign, then
  decimal digits with no leading zero (a lone \<open>0\<close> apart, and never \<open>-0\<close>).
\<close>

definition is_digit :: "char \<Rightarrow> bool" where
  "is_digit ch = (48 \<le> (of_char ch :: nat) \<and> (of_char ch :: nat) \<le> 57)"

definition digits_value :: "string \<Rightarrow> nat" where
  "digits_value ds = foldl (\<lambda>a ch. 10 * a + (of_char ch - 48)) 0 ds"

definition parse_int :: "string \<Rightarrow> int" where
  "parse_int s =
     (case s of
        [] \<Rightarrow> 0
      | ch # ds \<Rightarrow> if ch = CHR ''-'' then - int (digits_value ds) else int (digits_value s))"

definition canonical_digits :: "string \<Rightarrow> bool" where
  "canonical_digits ds =
     (ds \<noteq> [] \<and> list_all is_digit ds \<and> (hd ds = CHR ''0'' \<longrightarrow> length ds = 1))"

definition canonical_decimal :: "string \<Rightarrow> bool" where
  "canonical_decimal s =
     (case s of
        [] \<Rightarrow> False
      | ch # ds \<Rightarrow>
          if ch = CHR ''-'' then canonical_digits ds \<and> hd ds \<noteq> CHR ''0''
          else canonical_digits s)"

section \<open>Socket.IO event handlers\<close>

text \<open>
  Every \<open>sio.emit\<close> of \<open>main.py\<close> passes an event name and a payload and nothing
  else, so the recorded target is \<open>None\<close>.
\<close>

definition sio_emit :: "string \<Rightarrow> pyval \<Rightarrow> server \<Rightarrow> server" where
  "sio_emit ev d s = s\<lparr>emitted := emitted s @ [\<lparr>ev_name = ev, ev_data = d, ev_to = None\<rparr>]\<rparr>"

text \<open>
  Modelled from the spec: the outbound emit primitive of the external transport
  library, which "broadcasts to all connections when no target is given, or to
  one when given".
\<close>

definition recipients :: "emit_call \<Rightarrow> (sid \<times> real) list \<Rightarrow> sid list" where
  "recipients e d = (case ev_to e of None \<Rightarrow> dict_keys d | Some t \<Rightarrow> [t])"

definition welcome_payload :: pyval where
  "welcome_payload = PDict [(''msg'', PStr ''Welcome! Real-time notifications started'')]"

text \<open>\<open>connect(sid, environ)\<close>; \<open>now\<close> is the reading of \<open>time.monotonic()\<close>.\<close>

definition connect :: "sid \<Rightarrow> real \<Rightarrow> server \<Rightarrow> server" where
  "connect sid now s =
     sio_emit ''welcome'' welcome_payload
       (s\<lparr>active_clients := dict_setitem sid now (active_clients s)\<rparr>)"

definition disconnect :: "sid \<Rightarrow> server \<Rightarrow> py_error + server" where
  "disconnect sid s =
     (if dict_contains sid (active_clients s)
      then (case dict_delitem sid (active_clients s) of
              Inl e \<Rightarrow> Inl e
            | Inr d \<Rightarrow> Inr (s\<lparr>active_clients := d\<rparr>))
      else Inr s)"

definition message_payload :: "sid \<Rightarrow> pyval \<Rightarrow> pyval" where
  "message_payload sid d = PDict [(''from'', PStr sid), (''data'', d)]"

definition message :: "sid \<Rightarrow> pyval \<Rightarrow> server \<Rightarrow> server" where
  "message sid d s = sio_emit ''message'' (message_payload sid d) s"

section \<open>The broadcaster\<close>

definition notification_payload :: "int \<Rightarrow> real \<Rightarrow> pyval" where
  "notification_payload c now =
     PDict [(''id'', PInt c),
            (''text'', PStr (''Server notification #'' @ str_int c)),
            (''time'', PFloat now)]"

text \<open>
  One pass through the body of \<open>while True\<close>, from the flag check to the sleep.
  \<open>now\<close> is the reading of \<open>time.time()\<close>; the result is \<open>None\<close> when the
  coroutine returns and the new value of the local \<open>counter\<close> otherwise.
\<close>

definition broadcaster_body :: "real \<Rightarrow> int \<Rightarrow> server \<Rightarrow> int option \<times> server" where
  "broadcaster_body now counter s =
     (if shutdown_requested s then (None, s)
      else if active_clients s \<noteq> []
        then (Some (counter + 1),
              sio_emit ''notification'' (notification_payload (counter + 1) now) s)
        else (Some counter, s))"

text \<open>
  The task wakes up from its sleep (or starts) and runs one pass. A task that has
  returned or was cancelled is never scheduled again.
\<close>

definition broadcaster_tick :: "real \<Rightarrow> server \<Rightarrow> server" where
  "broadcaster_tick now s =
     (if bg_status s \<noteq> Pending then s
      else (case broadcaster_body now (bg_counter s) s of
              (None, s') \<Rightarrow> s'\<lparr>bg_status := Returned\<rparr>
            | (Some c, s') \<Rightarrow> s'\<lparr>bg_counter := c\<rparr>))"

section \<open>Interleaving on the event loop\<close>

text \<open>
  asyncio switches tasks only at an \<open>await\<close>. Each handler mutates the globals
  before its only \<open>await\<close>, and the broadcaster awaits only its emit and its sleep,
  so a run of the server is a sequence of atomic steps. An exception raised in a
  handler ends that handler's task and leaves the globals as they were.
\<close>

datatype event =
    Connect sid real
  | Disconnect sid
  | Message sid pyval
  | Tick real

fun handle :: "event \<Rightarrow> server \<Rightarrow> server" where
  "handle (Connect sid now) s = connect sid now s"
| "handle (Disconnect sid) s = (case disconnect sid s of Inl e \<Rightarrow> s | Inr s' \<Rightarrow> s')"
| "handle (Message sid d) s = message sid d s"
| "handle (Tick now) s = broadcaster_tick now s"

fun run :: "event list \<Rightarrow> server \<Rightarrow> server" where
  "run [] s = s"
| "run (e # es) s = run es (handle e s)"

section \<open>Properties of the handlers\<close>

lemma dict_contains_iff: "dict_contains k d \<longleftrightarrow> k \<in> set (dict_keys d)"
  by (induction d) (auto simp: dict_keys_def)

lemma dict_contains_filter:
  "dict_contains k (filter (\<lambda>p. fst p \<noteq> j) d) \<longleftrightarrow> k \<noteq> j \<and> dict_contains k d"
  by (induction d) auto

lemma filter_absent: "\<not> dict_contains k d \<Longrightarrow> filter (\<lambda>p. fst p \<noteq> k) d = d"
  by (induction d) auto

text \<open>
  C8. For every id, the disconnect handler returns normally, never with an
  exception. Its result is the state with the entry of that id filtered out of
  the registry: the id is gone, every other entry stays, and if the id was
  absent (never registered or already removed) the whole state is unchanged.
\<close>

theorem disconnect_removes_or_noop:
  "disconnect sid s =
     Inr (s\<lparr>active_clients := filter (\<lambda>p. fst p \<noteq> sid) (active_clients s)\<rparr>) \<and>
   \<not> dict_contains sid (filter (\<lambda>p. fst p \<noteq> sid) (active_clients s)) \<and>
   (\<forall>k. k \<noteq> sid \<longrightarrow>
      dict_contains k (filter (\<lambda>p. fst p \<noteq> sid) (active_clients s))
        = dict_contains k (active_clients s)) \<and>
   (\<not> dict_contains sid (active_clients s) \<longrightarrow> disconnect sid s = Inr s)"
  by (simp add: disconnect_def dict_delitem_def dict_contains_filter filter_absent)

theorem disconnect_removes_or_noop_witness:
  "disconnect ''a'' (initial\<lparr>active_clients := [(''a'', 1), (''b'', 2)]\<rparr>)
     = Inr (initial\<lparr>active_clients := [(''b'', 2)]\<rparr>) \<and>
   \<not> dict_contains ''a'' [(''b'', 2 :: real)] \<and>
   disconnect ''a'' (initial\<lparr>active_clients := [(''b'', 2)]\<rparr>)
     = Inr (initial\<lparr>active_clients := [(''b'', 2)]\<rparr>)"
  using disconnect_removes_or_noop [of "''a''" "initial\<lparr>active_clients := [(''a'', 1), (''b'', 2)]\<rparr>", THEN conjunct1]
    disconnect_removes_or_noop [of "''a''" "initial\<lparr>active_clients := [(''b'', 2)]\<rparr>", THEN conjunct2, THEN conjunct2, THEN conjunct2]
  by (simp add: initial_def)

text \<open>
  C10. For every sid and payload, the message handler appends exactly one emit:
  event \<open>message\<close>, payload \<open>{from: sid, data: payload}\<close>, no target, so it
  goes to every connection. Whether the sender is registered plays no role, and
  nothing but the emit log changes; the registry in particular is untouched.
\<close>

theorem message_broadcasts_once:
  "message sid d s =
     s\<lparr>emitted := emitted s @
        [\<lparr>ev_name = ''message'',
          ev_data = PDict [(''from'', PStr sid), (''data'', d)],
          ev_to = None\<rparr>]\<rparr> \<and>
   active_clients (message sid d s) = active_clients s \<and>
   recipients (last (emitted (message sid d s))) (active_clients (message sid d s))
     = dict_keys (active_clients s)"
  by (simp add: message_def sio_emit_def message_payload_def recipients_def)

section \<open>Runs of the server\<close>

text \<open>Reading the \<open>id\<close> field back from an emitted notification.\<close>

fun pydict_get :: "string \<Rightarrow> pyval \<Rightarrow> pyval option" where
  "pydict_get k (PDict d) = map_of d k"
| "pydict_get k v = None"

definition emit_id :: "emit_call \<Rightarrow> int list" where
  "emit_id e =
     (if ev_name e = ''notification''
      then (case pydict_get ''id'' (ev_data e) of Some (PInt i) \<Rightarrow> [i] | _ \<Rightarrow> [])
      else [])"

definition notification_ids :: "emit_call list \<Rightarrow> int list" where
  "notification_ids es = concat (map emit_id es)"

text \<open>The ticks of a run on which the broadcaster reaches its emit.\<close>

fun emitting :: "event \<Rightarrow> server \<Rightarrow> bool" where
  "emitting (Tick now) s =
     (bg_status s = Pending \<and> \<not> shutdown_requested s \<and> active_clients s \<noteq> [])"
| "emitting e s = False"

fun emitting_ticks :: "event list \<Rightarrow> server \<Rightarrow> nat" where
  "emitting_ticks [] s = 0"
| "emitting_ticks (e # es) s =
     (if emitting e s then 1 else 0) + emitting_ticks es (handle e s)"

fun ids_from :: "int \<Rightarrow> nat \<Rightarrow> int list" where
  "ids_from c 0 = []"
| "ids_from c (Suc k) = (c + 1) # ids_from (c + 1) k"

lemma ids_from_upt: "ids_from c k = map (\<lambda>i. c + int i) [1..<Suc k]"
proof (induction k arbitrary: c)
  case 0
  show ?case by simp
next
  case (Suc k)
  have "[1..<Suc (Suc k)] = 1 # map Suc [1..<Suc k]"
    by (simp add: map_Suc_upt upt_conv_Cons del: upt_Suc)
  then have "map (\<lambda>i. c + int i) [1..<Suc (Suc k)]
      = (c + 1) # map (\<lambda>i. (c + 1) + int i) [1..<Suc k]"
    by (simp add: comp_def del: upt_Suc)
  with Suc show ?case by (simp del: upt_Suc)
qed

lemma notification_ids_append [simp]:
  "notification_ids (es @ fs) = notification_ids es @ notification_ids fs"
  by (simp add: notification_ids_def)

lemma emit_id_notification [simp]:
  "emit_id \<lparr>ev_name = ''notification'', ev_data = notification_payload c now, ev_to = t\<rparr> = [c]"
  by (simp add: emit_id_def notification_payload_def)

lemma emit_id_other [simp]:
  "n \<noteq> ''notification'' \<Longrightarrow> emit_id \<lparr>ev_name = n, ev_data = d, ev_to = t\<rparr> = []"
  by (simp add: emit_id_def)

lemma handle_ids:
  "notification_ids (emitted (handle e s)) =
     notification_ids (emitted s) @ (if emitting e s then [bg_counter s + 1] else []) \<and>
   bg_counter (handle e s) = bg_counter s + (if emitting e s then 1 else 0)"
proof (cases e)
  case (Connect sid now)
  then show ?thesis
    by (simp add: connect_def sio_emit_def notification_ids_def)
next
  case (Disconnect sid)
  then show ?thesis
    by (simp add: disconnect_def dict_delitem_def)
next
  case (Message sid d)
  then show ?thesis
    by (simp add: message_def sio_emit_def notification_ids_def)
next
  case (Tick now)
  then show ?thesis
    by (simp add: broadcaster_tick_def broadcaster_body_def sio_emit_def notification_ids_def)
qed

lemma run_ids:
  "notification_ids (emitted (run evs s)) =
     notification_ids (emitted s) @ ids_from (bg_counter s) (emitting_ticks evs s) \<and>
   bg_counter (run evs s) = bg_counter s + int (emitting_ticks evs s)"
proof (induction evs arbitrary: s)
  case Nil
  show ?case by simp
next
  case (Cons e es)
  show ?case
    using Cons.IH [of "handle e s"] handle_ids [of e s] by simp
qed

lemma handle_flag [simp]: "shutdown_requested (handle e s) = shutdown_requested s"
  by (cases e)
    (simp_all add: connect_def sio_emit_def disconnect_def dict_delitem_def message_def
      broadcaster_tick_def broadcaster_body_def)

lemma run_flag [simp]: "shutdown_requested (run evs s) = shutdown_requested s"
  by (induction evs arbitrary: s) simp_all

lemma handle_done: "bg_status s \<noteq> Pending \<Longrightarrow> bg_status (handle e s) = bg_status s"
  by (cases e)
    (simp_all add: connect_def sio_emit_def disconnect_def dict_delitem_def message_def
      broadcaster_tick_def)

lemma run_done: "bg_status s \<noteq> Pending \<Longrightarrow> bg_status (run evs s) = bg_status s"
  by (induction evs arbitrary: s) (simp_all add: handle_done)

lemma emitting_ticks_flag: "shutdown_requested s \<Longrightarrow> emitting_ticks evs s = 0"
proof (induction evs arbitrary: s)
  case Nil
  show ?case by simp
next
  case (Cons e es)
  have "\<not> emitting e s" using Cons.prems by (cases e) simp_all
  moreover have "emitting_ticks es (handle e s) = 0"
    using Cons.prems by (intro Cons.IH) simp
  ultimately show ?case by simp
qed

lemma tick_flag_emitted:
  "shutdown_requested s \<Longrightarrow> emitted (broadcaster_tick now s) = emitted s"
  by (simp add: broadcaster_tick_def broadcaster_body_def)

lemma ticks_flag_emitted:
  "shutdown_requested s \<Longrightarrow> emitted (run (map Tick ts) s) = emitted s"
proof (induction ts arbitrary: s)
  case Nil
  show ?case by simp
next
  case (Cons t ts)
  have "emitted (run (map Tick ts) (broadcaster_tick t s)) = emitted (broadcaster_tick t s)"
    using Cons.prems by (intro Cons.IH) (simp add: broadcaster_tick_def broadcaster_body_def)
  then show ?case using Cons.prems by (simp add: tick_flag_emitted)
qed

section \<open>Properties of the broadcaster\<close>

text \<open>\<open>str_int\<close> writes the canonical decimal numeral of its argument.\<close>

lemma digit_char_code: "k < 10 \<Longrightarrow> (of_char (digit_char k) :: nat) = 48 + k"
proof -
  assume "k < 10"
  then have "k = 0 \<or> k = 1 \<or> k = 2 \<or> k = 3 \<or> k = 4 \<or> k = 5 \<or> k = 6
      \<or> k = 7 \<or> k = 8 \<or> k = 9"
    by arith
  then show ?thesis by (auto simp: digit_char_def)
qed

lemma digits_value_snoc:
  "digits_value (ds @ [ch]) = 10 * digits_value ds + (of_char ch - 48)"
  by (simp add: digits_value_def)

lemma digits_value_str_nat: "digits_value (str_nat n) = n"
proof (induction n rule: str_nat.induct)
  case (1 n)
  show ?case
  proof (cases "n < 10")
    case True
    then show ?thesis
      by (simp add: str_nat.simps [of n] digits_value_def digit_char_code)
  next
    case False
    have "n mod 10 < 10" by simp
    then have "(of_char (digit_char (n mod 10)) :: nat) - 48 = n mod 10"
      by (simp add: digit_char_code)
    with False "1.IH" show ?thesis
      by (simp add: str_nat.simps [of n] digits_value_snoc)
  qed
qed

lemma str_nat_digits: "str_nat n \<noteq> [] \<and> list_all is_digit (str_nat n)"
proof (induction n rule: str_nat.induct)
  case (1 n)
  have d: "is_digit (digit_char k)" if "k < 10" for k
    using that by (simp add: is_digit_def digit_char_code)
  show ?case
  proof (cases "n < 10")
    case True
    then show ?thesis by (simp add: str_nat.simps [of n] d)
  next
    case False
    with "1.IH" show ?thesis by (simp add: str_nat.simps [of n] d)
  qed
qed

lemma str_nat_leading: "0 < n \<Longrightarrow> hd (str_nat n) \<noteq> CHR ''0''"
proof (induction n rule: str_nat.induct)
  case (1 n)
  show ?case
  proof (cases "n < 10")
    case True
    have "(of_char (digit_char n) :: nat) = 48 + n"
      using True by (rule digit_char_code)
    moreover have "(of_char (CHR ''0'') :: nat) = 48" by simp
    ultimately have "digit_char n \<noteq> CHR ''0''" using "1.prems" by auto
    with True show ?thesis by (simp add: str_nat.simps [of n])
  next
    case False
    then have "0 < n div 10" by simp
    with False "1.IH" have "hd (str_nat (n div 10)) \<noteq> CHR ''0''" by simp
    with False show ?thesis
      using str_nat_digits [of "n div 10"] by (simp add: str_nat.simps [of n])
  qed
qed

lemma str_nat_zero: "str_nat 0 = ''0''"
  by (simp add: str_nat.simps [of 0] digit_char_def)

lemma str_nat_canonical: "canonical_digits (str_nat n)"
proof (cases "n = 0")
  case True
  then show ?thesis by (simp add: str_nat_zero canonical_digits_def is_digit_def)
next
  case False
  then show ?thesis
    using str_nat_digits [of n] str_nat_leading [of n] by (simp add: canonical_digits_def)
qed

lemma str_nat_no_minus: "hd (str_nat n) \<noteq> CHR ''-''"
proof -
  from str_nat_digits [of n] have "is_digit (hd (str_nat n))"
    by (cases "str_nat n") simp_all
  then show ?thesis by (auto simp: is_digit_def)
qed

lemma str_int_decimal: "parse_int (str_int i) = i \<and> canonical_decimal (str_int i)"
proof (cases "i < 0")
  case True
  then have "0 < nat (- i)" by simp
  from str_nat_leading [OF this] True show ?thesis
    by (simp add: str_int_def parse_int_def canonical_decimal_def digits_value_str_nat
        str_nat_canonical)
next
  case False
  obtain ch ds where s: "str_nat (nat i) = ch # ds"
    using str_nat_digits [of "nat i"] by (cases "str_nat (nat i)") auto
  with str_nat_no_minus [of "nat i"] have "ch \<noteq> CHR ''-''" by simp
  with False s show ?thesis
    using digits_value_str_nat [of "nat i"] str_nat_canonical [of "nat i"]
    by (simp add: str_int_def parse_int_def canonical_decimal_def)
qed

text \<open>
  C6. While \<open>shutdown_requested\<close> is false and the registry is non-empty, one
  pass of the broadcaster emits exactly one event, named \<open>notification\<close>, with
  payload \<open>{id: counter + 1, text: "Server notification #<counter + 1>", time:
  wall-clock reading}\<close>, and the local counter becomes \<open>counter + 1\<close>; the
  pending task does exactly this on its tick. The number in the text is the
  canonical decimal numeral of the id: it reads back as \<open>counter + 1\<close> and has
  no leading zero. In every run of a broadcaster that starts with counter 0
  and no notification sent, the ids of the emitted notifications are strictly
  increasing and the first one is 1.
\<close>

theorem broadcaster_emits_one_per_tick:
  "(\<not> shutdown_requested s \<and> active_clients s \<noteq> [] \<longrightarrow>
      broadcaster_body now c s =
        (Some (c + 1),
         s\<lparr>emitted := emitted s @
            [\<lparr>ev_name = ''notification'',
              ev_data = PDict [(''id'', PInt (c + 1)),
                               (''text'', PStr (''Server notification #'' @ str_int (c + 1))),
                               (''time'', PFloat now)],
              ev_to = None\<rparr>]\<rparr>) \<and>
      (bg_status s = Pending \<longrightarrow>
         handle (Tick now) s = snd (broadcaster_body now (bg_counter s) s)
           \<lparr>bg_counter := bg_counter s + 1\<rparr>)) \<and>
   parse_int (str_int (c + 1)) = c + 1 \<and> canonical_decimal (str_int (c + 1)) \<and>
   (bg_counter s = 0 \<and> notification_ids (emitted s) = [] \<longrightarrow>
      sorted_wrt (<) (notification_ids (emitted (run evs s))) \<and>
      (notification_ids (emitted (run evs s)) \<noteq> [] \<longrightarrow>
         hd (notification_ids (emitted (run evs s))) = 1))"
proof -
  have body: "\<not> shutdown_requested s \<and> active_clients s \<noteq> [] \<longrightarrow>
      broadcaster_body now c s =
        (Some (c + 1),
         s\<lparr>emitted := emitted s @
            [\<lparr>ev_name = ''notification'',
              ev_data = PDict [(''id'', PInt (c + 1)),
                               (''text'', PStr (''Server notification #'' @ str_int (c + 1))),
                               (''time'', PFloat now)],
              ev_to = None\<rparr>]\<rparr>) \<and>
      (bg_status s = Pending \<longrightarrow>
         handle (Tick now) s = snd (broadcaster_body now (bg_counter s) s)
           \<lparr>bg_counter := bg_counter s + 1\<rparr>)"
    by (simp add: broadcaster_body_def broadcaster_tick_def sio_emit_def notification_payload_def)
  have ids: "sorted_wrt (<) (notification_ids (emitted (run evs s))) \<and>
      (notification_ids (emitted (run evs s)) \<noteq> [] \<longrightarrow>
         hd (notification_ids (emitted (run evs s))) = 1)"
    if fresh: "bg_counter s = 0 \<and> notification_ids (emitted s) = []"
  proof -
    have eq: "notification_ids (emitted (run evs s))
        = map int [1..<Suc (emitting_ticks evs s)]"
      using run_ids [of evs s] fresh by (simp add: ids_from_upt del: upt_Suc)
    have "sorted_wrt (<) (map int [1..<Suc (emitting_ticks evs s)])"
      by (simp add: sorted_wrt_map del: upt_Suc)
    moreover have "hd (map int [1..<Suc (emitting_ticks evs s)]) = 1"
      if "map int [1..<Suc (emitting_ticks evs s)] \<noteq> []"
      using that by (simp add: upt_conv_Cons del: upt_Suc)
    ultimately show ?thesis unfolding eq by blast
  qed
  from body ids str_int_decimal [of "c + 1"] show ?thesis by blast
qed

theorem broadcaster_emits_one_per_tick_witness:
  "\<not> shutdown_requested (initial\<lparr>active_clients := [(''s1'', 2)]\<rparr>) \<and>
   active_clients (initial\<lparr>active_clients := [(''s1'', 2)]\<rparr>) \<noteq> [] \<and>
   broadcaster_body 1700 0 (initial\<lparr>active_clients := [(''s1'', 2)]\<rparr>) =
     (Some 1,
      initial\<lparr>active_clients := [(''s1'', 2)],
        emitted := [\<lparr>ev_name = ''notification'',
                     ev_data = PDict [(''id'', PInt 1),
                                      (''text'', PStr ''Server notification #1''),
                                      (''time'', PFloat 1700)],
                     ev_to = None\<rparr>]\<rparr>) \<and>
   broadcaster_body 1700 1233 (initial\<lparr>active_clients := [(''s1'', 2)]\<rparr>) =
     (Some 1234,
      initial\<lparr>active_clients := [(''s1'', 2)],
        emitted := [\<lparr>ev_name = ''notification'',
                     ev_data = PDict [(''id'', PInt 1234),
                                      (''text'', PStr ''Server notification #1234''),
                                      (''time'', PFloat 1700)],
                     ev_to = None\<rparr>]\<rparr>) \<and>
   parse_int ''1234'' = 1234 \<and> canonical_decimal ''1234'' \<and>
   notification_ids (emitted (run [Tick 1700, Tick 1710, Disconnect ''s1'', Tick 1720]
     (initial\<lparr>active_clients := [(''s1'', 2)]\<rparr>))) = [1, 2] \<and>
   sorted_wrt (<) (notification_ids (emitted (run [Tick 1700, Tick 1710, Disconnect ''s1'', Tick 1720]
     (initial\<lparr>active_clients := [(''s1'', 2)]\<rparr>)))) \<and>
   hd (notification_ids (emitted (run [Tick 1700, Tick 1710, Disconnect ''s1'', Tick 1720]
     (initial\<lparr>active_clients := [(''s1'', 2)]\<rparr>)))) = 1"
proof -
  let ?s = "initial\<lparr>active_clients := [(''s1'', 2)]\<rparr>"
  let ?evs = "[Tick 1700, Tick 1710, Disconnect ''s1'', Tick 1720]"
  have pre: "\<not> shutdown_requested ?s \<and> active_clients ?s \<noteq> []"
    by (simp add: initial_def)
  have fresh: "bg_counter ?s = 0 \<and> notification_ids (emitted ?s) = []"
    by (simp add: initial_def notification_ids_def)
  have ids: "notification_ids (emitted (run ?evs ?s)) = [1, 2]"
    by (simp add: initial_def broadcaster_tick_def broadcaster_body_def sio_emit_def
        disconnect_def dict_delitem_def notification_ids_def emit_id_def notification_payload_def)
  have str1: "str_int (0 + 1) = ''1''"
    by (simp add: str_int_def str_nat.simps digit_char_def)
  have body: "broadcaster_body 1700 0 ?s =
     (Some 1,
      initial\<lparr>active_clients := [(''s1'', 2)],
        emitted := [\<lparr>ev_name = ''notification'',
                     ev_data = PDict [(''id'', PInt 1),
                                      (''text'', PStr ''Server notification #1''),
                                      (''time'', PFloat 1700)],
                     ev_to = None\<rparr>]\<rparr>)"
    using broadcaster_emits_one_per_tick [of ?s 1700 0 ?evs] pre str1
    by (simp add: initial_def)
  have str2: "str_int (1233 + 1) = ''1234''"
    by (simp add: str_int_def str_nat.simps digit_char_def)
  have body2: "broadcaster_body 1700 1233 ?s =
     (Some 1234,
      initial\<lparr>active_clients := [(''s1'', 2)],
        emitted := [\<lparr>ev_name = ''notification'',
                     ev_data = PDict [(''id'', PInt 1234),
                                      (''text'', PStr ''Server notification #1234''),
                                      (''time'', PFloat 1700)],
                     ev_to = None\<rparr>]\<rparr>)"
    using broadcaster_emits_one_per_tick [of ?s 1700 1233 ?evs] pre str2
    by (simp add: initial_def)
  have dec: "parse_int ''1234'' = 1234 \<and> canonical_decimal ''1234''"
    using broadcaster_emits_one_per_tick [of ?s 1700 1233 ?evs] unfolding str2 by simp
  have mono: "sorted_wrt (<) (notification_ids (emitted (run ?evs ?s))) \<and>
      (notification_ids (emitted (run ?evs ?s)) \<noteq> [] \<longrightarrow>
         hd (notification_ids (emitted (run ?evs ?s))) = 1)"
    using broadcaster_emits_one_per_tick [of ?s 1700 0 ?evs] fresh by blast
  have "notification_ids (emitted (run ?evs ?s)) \<noteq> []"
    unfolding ids by simp
  with mono have "hd (notification_ids (emitted (run ?evs ?s))) = 1" by blast
  with pre body body2 dec ids mono show ?thesis by blast
qed

text \<open>
  C7. On a tick with an empty registry the broadcaster leaves the state as it is:
  nothing is emitted. Once \<open>shutdown_requested\<close> is true, a pass of the body
  returns without emitting, whatever the counter (so also for a broadcaster that
  is called again); the task is then no longer pending and further ticks change
  nothing; no sequence of ticks adds an emit, and in any later run of the server
  the flag stays true, no notification is added and the task stays terminated.
\<close>

theorem broadcaster_silent_when_empty_or_shutdown:
  "(active_clients s = [] \<longrightarrow>
      snd (broadcaster_body now c s) = s \<and> emitted (broadcaster_tick now s) = emitted s) \<and>
   (shutdown_requested s \<longrightarrow>
      broadcaster_body now c s = (None, s) \<and>
      bg_status (broadcaster_tick now s) \<noteq> Pending \<and>
      broadcaster_tick now' (broadcaster_tick now s) = broadcaster_tick now s \<and>
      emitted (run (map Tick ts) s) = emitted s \<and>
      shutdown_requested (run evs s) \<and>
      notification_ids (emitted (run evs s)) = notification_ids (emitted s) \<and>
      bg_status (run (Tick now # evs) s) \<noteq> Pending)"
proof -
  have empty: "active_clients s = [] \<longrightarrow>
      snd (broadcaster_body now c s) = s \<and> emitted (broadcaster_tick now s) = emitted s"
    by (simp add: broadcaster_body_def broadcaster_tick_def)
  have stopped: "broadcaster_body now c s = (None, s) \<and>
      bg_status (broadcaster_tick now s) \<noteq> Pending \<and>
      broadcaster_tick now' (broadcaster_tick now s) = broadcaster_tick now s \<and>
      emitted (run (map Tick ts) s) = emitted s \<and>
      shutdown_requested (run evs s) \<and>
      notification_ids (emitted (run evs s)) = notification_ids (emitted s) \<and>
      bg_status (run (Tick now # evs) s) \<noteq> Pending"
    if flag: "shutdown_requested s"
  proof -
    have b: "broadcaster_body now c s = (None, s)"
      using flag by (simp add: broadcaster_body_def)
    have t: "bg_status (broadcaster_tick now s) \<noteq> Pending"
      using flag by (simp add: broadcaster_tick_def broadcaster_body_def)
    have t2: "broadcaster_tick now' (broadcaster_tick now s) = broadcaster_tick now s"
      using t by (simp add: broadcaster_tick_def [of now'])
    have n: "notification_ids (emitted (run evs s)) = notification_ids (emitted s)"
      using run_ids [of evs s] emitting_ticks_flag [OF flag, of evs] by simp
    have r: "bg_status (run (Tick now # evs) s) \<noteq> Pending"
      using run_done [OF t, of evs] t by simp
    from b t t2 n r flag show ?thesis by (simp add: ticks_flag_emitted)
  qed
  from empty stopped show ?thesis by blast
qed

theorem broadcaster_silent_when_empty_or_shutdown_witness:
  "active_clients initial = [] \<and>
   emitted (broadcaster_tick 5 initial) = emitted initial \<and>
   shutdown_requested (initial\<lparr>active_clients := [(''s1'', 2)], shutdown_requested := True\<rparr>) \<and>
   broadcaster_body 5 3 (initial\<lparr>active_clients := [(''s1'', 2)], shutdown_requested := True\<rparr>)
     = (None, initial\<lparr>active_clients := [(''s1'', 2)], shutdown_requested := True\<rparr>) \<and>
   notification_ids (emitted (run [Connect ''s2'' 6, Tick 7]
      (initial\<lparr>active_clients := [(''s1'', 2)], shutdown_requested := True\<rparr>))) = [] \<and>
   bg_status (run [Tick 5, Connect ''s2'' 6, Tick 7]
      (initial\<lparr>active_clients := [(''s1'', 2)], shutdown_requested := True\<rparr>)) = Returned"
proof -
  let ?s = "initial\<lparr>active_clients := [(''s1'', 2)], shutdown_requested := True\<rparr>"
  have e: "active_clients initial = []" by (simp add: initial_def)
  have f: "shutdown_requested ?s" by simp
  have st: "bg_status (run [Tick 5, Connect ''s2'' 6, Tick 7] ?s) = Returned"
    by (simp add: initial_def broadcaster_tick_def broadcaster_body_def connect_def sio_emit_def)
  have n0: "notification_ids (emitted ?s) = []"
    by (simp add: initial_def notification_ids_def)
  from broadcaster_silent_when_empty_or_shutdown [of initial 5 0]
    broadcaster_silent_when_empty_or_shutdown [of ?s 5 3 7 "[]" "[Connect ''s2'' 6, Tick 7]"]
    e f st n0
  show ?thesis by simp
qed

text \<open>
  C9. In every run of a broadcaster that starts with counter 0 and no
  notification sent, the ids of the emitted notifications are exactly
  \<open>1, 2, ..., k\<close>, where \<open>k\<close> is the number of ticks on which the broadcaster
  reached its emit, and the counter ends at \<open>k\<close>. Every step of a run changes
  the counter only together with an emit: an emitting tick adds 1 and sends that
  id, any other step (a tick with an empty registry among them) leaves the
  counter and the sent ids as they are.
\<close>

theorem notification_ids_consecutive:
  "(bg_counter s = 0 \<and> notification_ids (emitted s) = [] \<longrightarrow>
      notification_ids (emitted (run evs s)) = map int [1..<Suc (emitting_ticks evs s)] \<and>
      bg_counter (run evs s) = int (emitting_ticks evs s) \<and>
      length (notification_ids (emitted (run evs s))) = emitting_ticks evs s) \<and>
   bg_counter (handle e s) = (if emitting e s then bg_counter s + 1 else bg_counter s) \<and>
   notification_ids (emitted (handle e s))
     = notification_ids (emitted s) @ (if emitting e s then [bg_counter s + 1] else []) \<and>
   (active_clients s = [] \<longrightarrow> \<not> emitting (Tick now) s \<and>
      bg_counter (handle (Tick now) s) = bg_counter s)"
proof -
  have run: "notification_ids (emitted (run evs s)) = map int [1..<Suc (emitting_ticks evs s)] \<and>
      bg_counter (run evs s) = int (emitting_ticks evs s) \<and>
      length (notification_ids (emitted (run evs s))) = emitting_ticks evs s"
    if "bg_counter s = 0 \<and> notification_ids (emitted s) = []"
    using run_ids [of evs s] that by (simp add: ids_from_upt del: upt_Suc)
  have step: "bg_counter (handle e s) = (if emitting e s then bg_counter s + 1 else bg_counter s) \<and>
      notification_ids (emitted (handle e s))
        = notification_ids (emitted s) @ (if emitting e s then [bg_counter s + 1] else [])"
    using handle_ids [of e s] by simp
  have empty: "active_clients s = [] \<longrightarrow> \<not> emitting (Tick now) s \<and>
      bg_counter (handle (Tick now) s) = bg_counter s"
    using handle_ids [of "Tick now" s] by simp
  from run step empty show ?thesis by blast
qed

theorem notification_ids_consecutive_witness:
  "bg_counter initial = 0 \<and> notification_ids (emitted initial) = [] \<and>
   emitting_ticks [Tick 10, Connect ''s1'' 11, Tick 20, Tick 30, Disconnect ''s1'', Tick 40,
      Connect ''s2'' 41, Tick 50] initial = 3 \<and>
   notification_ids (emitted (run [Tick 10, Connect ''s1'' 11, Tick 20, Tick 30, Disconnect ''s1'',
      Tick 40, Connect ''s2'' 41, Tick 50] initial)) = [1, 2, 3] \<and>
   bg_counter (run [Tick 10, Connect ''s1'' 11, Tick 20, Tick 30, Disconnect ''s1'',
      Tick 40, Connect ''s2'' 41, Tick 50] initial) = 3"
proof -
  let ?evs = "[Tick 10, Connect ''s1'' 11, Tick 20, Tick 30, Disconnect ''s1'', Tick 40,
      Connect ''s2'' 41, Tick 50]"
  have fresh: "bg_counter initial = 0 \<and> notification_ids (emitted initial) = []"
    by (simp add: initial_def notification_ids_def)
  have k: "emitting_ticks ?evs initial = 3"
    by (simp add: initial_def broadcaster_tick_def broadcaster_body_def connect_def sio_emit_def
        disconnect_def dict_delitem_def)
  have upt: "map int [1..<Suc 3] = [1, 2, 3]"
    by (simp add: upt_conv_Cons)
  have main: "notification_ids (emitted (run ?evs initial))
        = map int [1..<Suc (emitting_ticks ?evs initial)] \<and>
      bg_counter (run ?evs initial) = int (emitting_ticks ?evs initial)"
    using notification_ids_consecutive [of initial ?evs] fresh by blast
  have a: "notification_ids (emitted (run ?evs initial)) = [1, 2, 3]"
    using main unfolding k upt by blast
  have b: "bg_counter (run ?evs initial) = 3"
    using main unfolding k by simp
  from fresh k a b show ?thesis by blast
qed

section \<open>Properties of the connect handler and of the registry\<close>

lemma dict_contains_setitem [simp]:
  "dict_contains j (dict_setitem k v d) \<longleftrightarrow> j = k \<or> dict_contains j d"
  by (induction d) auto

lemma length_setitem:
  "length (dict_setitem k v d) = (if dict_contains k d then length d else Suc (length d))"
  by (induction d) auto

lemma keys_setitem: "set (dict_keys (dict_setitem k v d)) = insert k (set (dict_keys d))"
  by (induction d) (auto simp: dict_keys_def)

lemma distinct_setitem:
  "distinct (dict_keys d) \<Longrightarrow> distinct (dict_keys (dict_setitem k v d))"
proof (induction d)
  case Nil
  show ?case by (simp add: dict_keys_def)
next
  case (Cons p d)
  have "fst p \<notin> set (dict_keys (dict_setitem k v d))" if "fst p \<noteq> k"
    using Cons.prems that by (simp add: keys_setitem) (simp add: dict_keys_def)
  with Cons show ?case by (auto simp: dict_keys_def)
qed

lemma distinct_delitem:
  "distinct (dict_keys d) \<Longrightarrow> distinct (dict_keys (filter (\<lambda>p. fst p \<noteq> k) d))"
  by (simp add: dict_keys_def distinct_map_filter)

lemma length_delitem:
  "distinct (dict_keys d) \<Longrightarrow> dict_contains k d \<Longrightarrow>
     Suc (length (filter (\<lambda>p. fst p \<noteq> k) d)) = length d"
proof (induction d)
  case Nil
  then show ?case by simp
next
  case (Cons p d)
  show ?case
  proof (cases "fst p = k")
    case True
    then have "\<not> dict_contains k d"
      using Cons.prems(1) by (simp add: dict_contains_iff) (simp add: dict_keys_def)
    with True show ?thesis by (simp add: filter_absent)
  next
    case False
    with Cons show ?thesis by (simp add: dict_keys_def)
  qed
qed

text \<open>
  The spec's count for \<open>Registry.size()\<close>: the connect events of the sequence
  minus the disconnect events whose id was registered when they arrived,
  clamped at 0.
\<close>

fun is_connect :: "event \<Rightarrow> bool" where
  "is_connect (Connect sid now) = True"
| "is_connect e = False"

definition num_connects :: "event list \<Rightarrow> nat" where
  "num_connects evs = length (filter is_connect evs)"

fun disconnect_present :: "event \<Rightarrow> server \<Rightarrow> bool" where
  "disconnect_present (Disconnect sid) s = dict_contains sid (active_clients s)"
| "disconnect_present e s = False"

fun present_disconnects :: "event list \<Rightarrow> server \<Rightarrow> nat" where
  "present_disconnects [] s = 0"
| "present_disconnects (e # es) s =
     (if disconnect_present e s then 1 else 0) + present_disconnects es (handle e s)"

definition spec_size :: "event list \<Rightarrow> server \<Rightarrow> int" where
  "spec_size evs s = max 0 (int (num_connects evs) - int (present_disconnects evs s))"

text \<open>The connect events whose id was not registered when they arrived.\<close>

fun connect_fresh :: "event \<Rightarrow> server \<Rightarrow> bool" where
  "connect_fresh (Connect sid now) s = (\<not> dict_contains sid (active_clients s))"
| "connect_fresh e s = False"

fun fresh_connects :: "event list \<Rightarrow> server \<Rightarrow> nat" where
  "fresh_connects [] s = 0"
| "fresh_connects (e # es) s =
     (if connect_fresh e s then 1 else 0) + fresh_connects es (handle e s)"

lemma handle_size:
  assumes "distinct (dict_keys (active_clients s))"
  shows "distinct (dict_keys (active_clients (handle e s))) \<and>
     length (active_clients (handle e s)) + (if disconnect_present e s then 1 else 0)
       = length (active_clients s) + (if connect_fresh e s then 1 else 0)"
proof (cases e)
  case (Connect sid now)
  with assms show ?thesis
    by (simp add: connect_def sio_emit_def distinct_setitem length_setitem)
next
  case (Disconnect sid)
  with assms show ?thesis
    using length_delitem [of "active_clients s" sid]
    by (simp add: disconnect_def dict_delitem_def distinct_delitem)
next
  case (Message sid d)
  with assms show ?thesis by (simp add: message_def sio_emit_def)
next
  case (Tick now)
  with assms show ?thesis
    by (simp add: broadcaster_tick_def broadcaster_body_def sio_emit_def dict_keys_def)
qed

lemma run_size:
  "distinct (dict_keys (active_clients s)) \<Longrightarrow>
     distinct (dict_keys (active_clients (run evs s))) \<and>
     length (active_clients (run evs s)) + present_disconnects evs s
       = length (active_clients s) + fresh_connects evs s"
proof (induction evs arbitrary: s)
  case Nil
  then show ?case by simp
next
  case (Cons e es)
  from handle_size [OF Cons.prems, of e]
  have d: "distinct (dict_keys (active_clients (handle e s)))"
    and n: "length (active_clients (handle e s)) + (if disconnect_present e s then 1 else 0)
       = length (active_clients s) + (if connect_fresh e s then 1 else 0)"
    by blast+
  from Cons.IH [OF d] n show ?case by (simp split: if_splits)
qed

lemma fresh_le_connects: "fresh_connects evs s \<le> num_connects evs"
proof (induction evs arbitrary: s)
  case Nil
  show ?case by (simp add: num_connects_def)
next
  case (Cons e es)
  have "(if connect_fresh e s then 1 else 0) \<le> (if is_connect e then 1 else (0::nat))"
    by (cases e) simp_all
  with Cons [of "handle e s"] show ?case by (simp add: num_connects_def split: if_splits)
qed

text \<open>
  C2, as the spec states it, fails: the welcome emit of \<open>connect\<close> carries no
  target. With \<open>a\<close> and \<open>b\<close> registered, the connect of \<open>c\<close> sends its
  welcome to \<open>a\<close>, \<open>b\<close> and \<open>c\<close>, not to \<open>c\<close> alone.
\<close>

theorem connect_welcome_counterexample:
  "ev_to (last (emitted (connect ''c'' 3 (initial\<lparr>active_clients := [(''a'', 1), (''b'', 2)]\<rparr>))))
     \<noteq> Some ''c'' \<and>
   recipients
     (last (emitted (connect ''c'' 3 (initial\<lparr>active_clients := [(''a'', 1), (''b'', 2)]\<rparr>))))
     (active_clients (connect ''c'' 3 (initial\<lparr>active_clients := [(''a'', 1), (''b'', 2)]\<rparr>)))
     \<noteq> [''c'']"
  by (simp add: connect_def sio_emit_def recipients_def dict_keys_def initial_def)

text \<open>
  C2, amended. Every connect event appends exactly one emit, named \<open>welcome\<close>,
  with the fixed welcome payload and no target: it is broadcast to every
  registered connection, the connecting one among them.
\<close>

theorem connect_emits_one_welcome:
  "emitted (connect sid now s) =
     emitted s @
       [\<lparr>ev_name = ''welcome'',
         ev_data = PDict [(''msg'', PStr ''Welcome! Real-time notifications started'')],
         ev_to = None\<rparr>] \<and>
   recipients (last (emitted (connect sid now s))) (active_clients (connect sid now s))
     = dict_keys (dict_setitem sid now (active_clients s)) \<and>
   sid \<in> set (recipients (last (emitted (connect sid now s)))
                (active_clients (connect sid now s)))"
  by (simp add: connect_def sio_emit_def welcome_payload_def recipients_def keys_setitem)

text \<open>
  C3, as the spec states it, fails: \<open>connect\<close> never reads
  \<open>shutdown_requested\<close>. In a draining server (flag set, start time recorded)
  a connect of an unknown sid adds it to the registry.
\<close>

theorem connect_during_draining_counterexample:
  "shutdown_requested
     (initial\<lparr>active_clients := [(''s1'', 2)], shutdown_requested := True,
        shutdown_start_time := Some 100\<rparr>) \<and>
   \<not> dict_contains ''late''
     (active_clients (initial\<lparr>active_clients := [(''s1'', 2)], shutdown_requested := True,
        shutdown_start_time := Some 100\<rparr>)) \<and>
   dict_contains ''late''
     (active_clients (handle (Connect ''late'' 107)
        (initial\<lparr>active_clients := [(''s1'', 2)], shutdown_requested := True,
           shutdown_start_time := Some 100\<rparr>)))"
  by (simp add: connect_def sio_emit_def initial_def)

text \<open>
  C3, amended. Once \<open>shutdown_requested\<close> is true the work that stops is the
  broadcaster's: a tick emits nothing and no later run adds a notification.
  Connect events are not blocked: whatever the flag, \<open>connect\<close> stores the sid
  with its timestamp in the registry, so the sid is registered afterwards, and
  the handler does the same with the flag set as without it.
\<close>

theorem connect_not_blocked_by_shutdown:
  "active_clients (connect sid now s) = dict_setitem sid now (active_clients s) \<and>
   dict_contains sid (active_clients (connect sid now s)) \<and>
   connect sid now (s\<lparr>shutdown_requested := True\<rparr>)
     = (connect sid now s)\<lparr>shutdown_requested := True\<rparr> \<and>
   (shutdown_requested s \<longrightarrow>
      emitted (broadcaster_tick t s) = emitted s \<and>
      notification_ids (emitted (run evs s)) = notification_ids (emitted s))"
proof -
  have c: "active_clients (connect sid now s) = dict_setitem sid now (active_clients s) \<and>
      dict_contains sid (active_clients (connect sid now s)) \<and>
      connect sid now (s\<lparr>shutdown_requested := True\<rparr>)
        = (connect sid now s)\<lparr>shutdown_requested := True\<rparr>"
    by (simp add: connect_def sio_emit_def)
  have b: "emitted (broadcaster_tick t s) = emitted s \<and>
      notification_ids (emitted (run evs s)) = notification_ids (emitted s)"
    if flag: "shutdown_requested s"
    using run_ids [of evs s] emitting_ticks_flag [OF flag, of evs] tick_flag_emitted [OF flag]
    by simp
  from c b show ?thesis by blast
qed

theorem connect_not_blocked_by_shutdown_witness:
  "shutdown_requested
     (initial\<lparr>active_clients := [(''s1'', 2)], shutdown_requested := True\<rparr>) \<and>
   active_clients (connect ''late'' 107
     (initial\<lparr>active_clients := [(''s1'', 2)], shutdown_requested := True\<rparr>))
     = [(''s1'', 2), (''late'', 107)] \<and>
   emitted (broadcaster_tick 110
     (initial\<lparr>active_clients := [(''s1'', 2)], shutdown_requested := True\<rparr>)) = []"
proof -
  let ?s = "initial\<lparr>active_clients := [(''s1'', 2)], shutdown_requested := True\<rparr>"
  have f: "shutdown_requested ?s" by simp
  have e: "emitted ?s = []" by (simp add: initial_def)
  have d: "dict_setitem ''late'' 107 (active_clients ?s) = [(''s1'', 2), (''late'', 107)]"
    by (simp add: initial_def)
  have a: "active_clients (connect ''late'' 107 ?s) = [(''s1'', 2), (''late'', 107)]"
    using connect_not_blocked_by_shutdown [of "''late''" 107 ?s] unfolding d by blast
  have b: "emitted (broadcaster_tick 110 ?s) = []"
    using connect_not_blocked_by_shutdown [of "''late''" 107 ?s 110] f unfolding e by blast
  from f a b show ?thesis by blast
qed

text \<open>
  C4, as the spec states it, fails: a connect for an id that is already
  registered overwrites the entry and does not change the size. After two
  connects of \<open>a\<close> the size is 1, the spec's count is 2.
\<close>

theorem registry_size_counterexample:
  "int (length (active_clients (run [Connect ''a'' 1, Connect ''a'' 2] initial))) = 1 \<and>
   spec_size [Connect ''a'' 1, Connect ''a'' 2] initial = 2"
  by (simp add: spec_size_def num_connects_def connect_def sio_emit_def initial_def)

text \<open>
  C4, amended. For every sequence of events applied to the initially empty
  registry, the size equals the number of connect events whose id was absent
  when they arrived minus the number of disconnect events whose id was present
  when they arrived. The difference is never negative, so nothing is clamped,
  and a disconnect for an absent id is not counted. When no connect of the
  sequence hits a registered id, this is the spec's count.
\<close>

theorem registry_size_counts:
  "int (length (active_clients (run evs initial)))
     = int (fresh_connects evs initial) - int (present_disconnects evs initial) \<and>
   present_disconnects evs initial \<le> fresh_connects evs initial \<and>
   fresh_connects evs initial \<le> num_connects evs \<and>
   (fresh_connects evs initial = num_connects evs \<longrightarrow>
      int (length (active_clients (run evs initial))) = spec_size evs initial)"
proof -
  have "distinct (dict_keys (active_clients initial))"
    by (simp add: initial_def dict_keys_def)
  from run_size [OF this, of evs]
  have eq: "length (active_clients (run evs initial)) + present_disconnects evs initial
      = fresh_connects evs initial"
    by (simp add: initial_def)
  then have le: "present_disconnects evs initial \<le> fresh_connects evs initial"
    by linarith
  from eq have sz: "int (length (active_clients (run evs initial)))
      = int (fresh_connects evs initial) - int (present_disconnects evs initial)"
    by linarith
  have sp: "int (length (active_clients (run evs initial))) = spec_size evs initial"
    if "fresh_connects evs initial = num_connects evs"
    using sz le that by (simp add: spec_size_def)
  from sz le sp fresh_le_connects [of evs initial] show ?thesis by blast
qed

theorem registry_size_counts_witness:
  "fresh_connects [Connect ''a'' 1, Disconnect ''b'', Connect ''b'' 2, Disconnect ''a'',
      Disconnect ''a''] initial = 2 \<and>
   num_connects [Connect ''a'' 1, Disconnect ''b'', Connect ''b'' 2, Disconnect ''a'',
      Disconnect ''a''] = 2 \<and>
   present_disconnects [Connect ''a'' 1, Disconnect ''b'', Connect ''b'' 2, Disconnect ''a'',
      Disconnect ''a''] initial = 1 \<and>
   int (length (active_clients (run [Connect ''a'' 1, Disconnect ''b'', Connect ''b'' 2,
      Disconnect ''a'', Disconnect ''a''] initial))) = 1 \<and>
   spec_size [Connect ''a'' 1, Disconnect ''b'', Connect ''b'' 2, Disconnect ''a'',
      Disconnect ''a''] initial = 1"
proof -
  let ?evs = "[Connect ''a'' 1, Disconnect ''b'', Connect ''b'' 2, Disconnect ''a'',
      Disconnect ''a'']"
  have f: "fresh_connects ?evs initial = 2"
    by (simp add: connect_def sio_emit_def disconnect_def dict_delitem_def initial_def)
  have n: "num_connects ?evs = 2"
    by (simp add: num_connects_def)
  have p: "present_disconnects ?evs initial = 1"
    by (simp add: connect_def sio_emit_def disconnect_def dict_delitem_def initial_def)
  have fn: "fresh_connects ?evs initial = num_connects ?evs"
    unfolding f n by simp
  have main: "int (length (active_clients (run ?evs initial)))
       = int (fresh_connects ?evs initial) - int (present_disconnects ?evs initial) \<and>
     int (length (active_clients (run ?evs initial))) = spec_size ?evs initial"
    using registry_size_counts [of ?evs] fn by blast
  have a: "int (length (active_clients (run ?evs initial))) = 1"
    using main unfolding f p by simp
  have b: "spec_size ?evs initial = 1"
    using main a by simp
  from f n p a b show ?thesis by blast
qed

section \<open>The shutdown path of \<open>lifespan\<close>\<close>

text \<open>
  The code after \<open>yield\<close> (lines 43 to 71). The drain loop suspends at
  \<open>await asyncio.sleep(5)\<close>; what the rest of the server does meanwhile and the
  value \<open>time.monotonic()\<close> returns afterwards are inputs: one \<open>round\<close> per
  pass through the loop body, holding the events handled during the sleep and
  the clock reading of line 59. The loop can wait for as long as clients stay
  and the clock has not reached the deadline, so a list of rounds that ends
  while the loop is still waiting gives \<open>None\<close>. The log lines only read the
  state and are left out. Events handled while a forced disconnect or the
  cancelled task is awaited are not modelled: the sids to disconnect are fixed
  by \<open>list(active_clients)\<close> before the first of them is closed.

  Line 59 computes with Python floats: each of its two subtractions rounds its
  result to a float (\<open>MAX_GRACE_PERIOD\<close> is the int 1800, converted exactly).
  The float subtraction belongs to the Python runtime and not to the
  repository, so it is the parameter \<open>fsub\<close> of the model and nothing is
  assumed about it: what is proved for every \<open>fsub\<close> holds for the rounding
  subtraction of the runtime. The closed examples below use the exact
  difference on clock readings that are multiples of 1/4 below 2048, on which
  the float subtraction is exact.
\<close>

type_synonym round = "event list \<times> real"

definition poll :: "server \<Rightarrow> server" where
  "poll s = s\<lparr>trace := trace s @ [APoll (length (active_clients s)) (bg_status s)]\<rparr>"

definition sleep :: "round \<Rightarrow> server \<Rightarrow> server" where
  "sleep r s = (let s' = run (fst r) s in s'\<lparr>trace := trace s' @ [ASleep (snd r)]\<rparr>)"

fun drain :: "(real \<Rightarrow> real \<Rightarrow> real) \<Rightarrow> real \<Rightarrow> round list \<Rightarrow> server
    \<Rightarrow> (py_error + server) option" where
  "drain fsub remaining [] s =
     (if length (active_clients s) > 0 \<and> remaining > 0 then None
      else Some (Inr (poll s)))"
| "drain fsub remaining (r # rs) s =
     (if length (active_clients s) > 0 \<and> remaining > 0
      then (let s' = sleep r (poll s)
            in case shutdown_start_time s' of
                 None \<Rightarrow> Some (Inl TypeError)
               | Some start \<Rightarrow>
                   drain fsub (max 0 (fsub MAX_GRACE_PERIOD (fsub (snd r) start))) rs s')
      else Some (Inr (poll s)))"

text \<open>
  Modelled from the spec: \<open>sio.disconnect\<close> belongs to the external transport
  library; closing a connection makes the transport's close callback drive the
  \<open>disconnect\<close> handler for that sid.
\<close>

definition sio_disconnect :: "sid \<Rightarrow> server \<Rightarrow> py_error + server" where
  "sio_disconnect sid s = disconnect sid (s\<lparr>trace := trace s @ [AForce sid]\<rparr>)"

fun force_disconnect :: "sid list \<Rightarrow> server \<Rightarrow> py_error + server" where
  "force_disconnect [] s = Inr s"
| "force_disconnect (sid # sids) s =
     (case sio_disconnect sid s of
        Inl e \<Rightarrow> Inl e
      | Inr s' \<Rightarrow> force_disconnect sids s')"

text \<open>
  \<open>bg_task.cancel()\<close> followed by the awaited task: a pending task ends
  cancelled, a task that has returned stays as it is.
\<close>

definition cancel_and_await :: "server \<Rightarrow> server" where
  "cancel_and_await s =
     s\<lparr>bg_status := (if bg_status s = Pending then Cancelled else bg_status s),
       trace := trace s @ [ACancel, AAwait]\<rparr>"

definition lifespan_shutdown :: "(real \<Rightarrow> real \<Rightarrow> real) \<Rightarrow> real \<Rightarrow> round list \<Rightarrow> server
    \<Rightarrow> (py_error + server) option" where
  "lifespan_shutdown fsub now rs s =
     (let s1 = s\<lparr>shutdown_requested := True, shutdown_start_time := Some now,
                 trace := trace s @ [ASetFlag, ARecordStart now]\<rparr>
      in case drain fsub MAX_GRACE_PERIOD rs s1 of
           None \<Rightarrow> None
         | Some (Inl e) \<Rightarrow> Some (Inl e)
         | Some (Inr s2) \<Rightarrow>
             (case (if length (active_clients s2) > 0
                    then force_disconnect (dict_keys (active_clients s2)) s2
                    else Inr s2) of
                Inl e \<Rightarrow> Some (Inl e)
              | Inr s3 \<Rightarrow> Some (Inr (cancel_and_await s3))))"

text \<open>Reading a trace: the forced sids and the clock readings, in order.\<close>

fun forced_sids :: "action list \<Rightarrow> sid list" where
  "forced_sids [] = []"
| "forced_sids (AForce sid # as) = sid # forced_sids as"
| "forced_sids (a # as) = forced_sids as"

fun sleep_clocks :: "action list \<Rightarrow> real list" where
  "sleep_clocks [] = []"
| "sleep_clocks (ASleep t # as) = t # sleep_clocks as"
| "sleep_clocks (a # as) = sleep_clocks as"

text \<open>
  The spec's order for C1: every size poll of the shutdown found the
  broadcaster task terminated.
\<close>

fun poll_after_termination :: "action \<Rightarrow> bool" where
  "poll_after_termination (APoll n st) = (st \<noteq> Pending)"
| "poll_after_termination a = True"

section \<open>Properties of the shutdown path\<close>

lemma disconnect_filter:
  "disconnect sid s =
     Inr (s\<lparr>active_clients := filter (\<lambda>p. fst p \<noteq> sid) (active_clients s)\<rparr>)"
  by (simp add: disconnect_def dict_delitem_def filter_absent)

lemma handle_trace [simp]: "trace (handle e s) = trace s"
  by (cases e)
    (simp_all add: connect_def sio_emit_def disconnect_filter message_def
      broadcaster_tick_def broadcaster_body_def)

lemma run_trace [simp]: "trace (run evs s) = trace s"
  by (induction evs arbitrary: s) simp_all

lemma handle_start [simp]: "shutdown_start_time (handle e s) = shutdown_start_time s"
  by (cases e)
    (simp_all add: connect_def sio_emit_def disconnect_filter message_def
      broadcaster_tick_def broadcaster_body_def)

lemma run_start [simp]: "shutdown_start_time (run evs s) = shutdown_start_time s"
  by (induction evs arbitrary: s) simp_all

lemma poll_fields [simp]:
  "active_clients (poll s) = active_clients s"
  "shutdown_requested (poll s) = shutdown_requested s"
  "shutdown_start_time (poll s) = shutdown_start_time s"
  "bg_status (poll s) = bg_status s"
  "trace (poll s) = trace s @ [APoll (length (active_clients s)) (bg_status s)]"
  by (simp_all add: poll_def)

lemma sleep_fields [simp]:
  "active_clients (sleep r s) = active_clients (run (fst r) s)"
  "shutdown_requested (sleep r s) = shutdown_requested s"
  "shutdown_start_time (sleep r s) = shutdown_start_time s"
  "trace (sleep r s) = trace s @ [ASleep (snd r)]"
  by (simp_all add: sleep_def Let_def)

text \<open>What the coordinator does between recording the start time and the cancel.\<close>

fun middle_action :: "action \<Rightarrow> bool" where
  "middle_action (APoll n st) = True"
| "middle_action (ASleep t) = True"
| "middle_action (AForce sid) = True"
| "middle_action a = False"

lemma drain_no_error:
  "shutdown_start_time s \<noteq> None \<Longrightarrow> drain fsub rem rs s \<noteq> Some (Inl e)"
proof (induction rs arbitrary: rem s)
  case Nil
  show ?case by simp
next
  case (Cons r rs)
  from Cons.prems obtain start where st: "shutdown_start_time s = Some start" by blast
  have "drain fsub (max 0 (fsub MAX_GRACE_PERIOD (fsub (snd r) start))) rs (sleep r (poll s)) \<noteq> Some (Inl e)"
    by (rule Cons.IH) (simp add: st)
  then show ?case by (simp add: Let_def st)
qed

lemma drain_trace:
  "drain fsub rem rs s = Some (Inr s') \<Longrightarrow>
     shutdown_requested s' = shutdown_requested s \<and>
     shutdown_start_time s' = shutdown_start_time s \<and>
     (\<exists>mid. trace s' = trace s @ APoll (length (active_clients s)) (bg_status s) # mid \<and>
        list_all middle_action mid)"
proof (induction rs arbitrary: rem s)
  case Nil
  then show ?case by (auto split: if_splits)
next
  case (Cons r rs)
  show ?case
  proof (cases "length (active_clients s) > 0 \<and> rem > 0")
    case False
    with Cons.prems show ?thesis by auto
  next
    case True
    let ?s1 = "sleep r (poll s)"
    from Cons.prems True obtain start where st: "shutdown_start_time s = Some start"
      and d: "drain fsub (max 0 (fsub MAX_GRACE_PERIOD (fsub (snd r) start))) rs ?s1 = Some (Inr s')"
      by (cases "shutdown_start_time s") (simp_all add: Let_def)
    from Cons.IH [OF d] obtain mid where
      f: "shutdown_requested s' = shutdown_requested s"
      and t: "shutdown_start_time s' = shutdown_start_time s"
      and tr: "trace s' = trace ?s1 @ APoll (length (active_clients ?s1)) (bg_status ?s1) # mid"
      and m: "list_all middle_action mid"
      by auto
    have "trace s' = trace s @ APoll (length (active_clients s)) (bg_status s) #
        (ASleep (snd r) # APoll (length (active_clients ?s1)) (bg_status ?s1) # mid)"
      using tr by simp
    moreover have "list_all middle_action
        (ASleep (snd r) # APoll (length (active_clients ?s1)) (bg_status ?s1) # mid)"
      using m by simp
    ultimately show ?thesis using f t by blast
  qed
qed

lemma drain_terminates:
  "shutdown_start_time s = Some start \<Longrightarrow>
     \<exists>r\<in>set rs. fsub MAX_GRACE_PERIOD (fsub (snd r) start) \<le> 0 \<Longrightarrow> drain fsub rem rs s \<noteq> None"
proof (induction rs arbitrary: rem s)
  case Nil
  then show ?case by simp
next
  case (Cons r rs)
  let ?s1 = "sleep r (poll s)"
  let ?rem = "max 0 (fsub MAX_GRACE_PERIOD (fsub (snd r) start))"
  have st1: "shutdown_start_time ?s1 = Some start" using Cons.prems(1) by simp
  have "drain fsub ?rem rs ?s1 \<noteq> None"
  proof (cases "fsub MAX_GRACE_PERIOD (fsub (snd r) start) \<le> 0")
    case True
    then have "?rem = 0" by simp
    then show ?thesis by (cases rs) simp_all
  next
    case False
    with Cons.prems(2) have "\<exists>r\<in>set rs. fsub MAX_GRACE_PERIOD (fsub (snd r) start) \<le> 0" by auto
    from Cons.IH [OF st1 this] show ?thesis .
  qed
  then show ?case using Cons.prems(1) by (simp add: Let_def)
qed

lemma force_disconnect_eq:
  "force_disconnect ks s =
     Inr (s\<lparr>active_clients := filter (\<lambda>p. fst p \<notin> set ks) (active_clients s),
            trace := trace s @ map AForce ks\<rparr>)"
proof (induction ks arbitrary: s)
  case Nil
  show ?case by simp
next
  case (Cons k ks)
  show ?case
    by (simp add: sio_disconnect_def disconnect_filter Cons.IH conj_commute)
qed

lemma forced_sids_append [simp]: "forced_sids (as @ bs) = forced_sids as @ forced_sids bs"
  by (induction as rule: forced_sids.induct) simp_all

lemma forced_sids_map [simp]: "forced_sids (map AForce ks) = ks"
  by (induction ks) simp_all

lemma sleep_clocks_append [simp]: "sleep_clocks (as @ bs) = sleep_clocks as @ sleep_clocks bs"
  by (induction as rule: sleep_clocks.induct) simp_all

lemma sleep_clocks_map [simp]: "sleep_clocks (map AForce ks) = []"
  by (induction ks) simp_all

lemma middle_map_force [simp]: "list_all middle_action (map AForce ks)"
  by (induction ks) simp_all

text \<open>
  C1, as the spec states it, fails: the cancel of the broadcaster task is the
  last thing the shutdown does. With one client that disconnects during the
  first sleep, both size polls of the drain loop come before the cancel and
  find the broadcaster task still pending.
\<close>

theorem poll_before_cancel_counterexample:
  "lifespan_shutdown (-) 0 [([Disconnect ''s1''], 5)] (initial\<lparr>active_clients := [(''s1'', 2)]\<rparr>) =
     Some (Inr (initial\<lparr>shutdown_requested := True, shutdown_start_time := Some 0,
       bg_status := Cancelled,
       trace := [ASetFlag, ARecordStart 0, APoll 1 Pending, ASleep 5, APoll 0 Pending,
                 ACancel, AAwait]\<rparr>)) \<and>
   \<not> list_all poll_after_termination
     [ASetFlag, ARecordStart 0, APoll 1 Pending, ASleep 5, APoll 0 Pending, ACancel, AAwait]"
  by (simp add: lifespan_shutdown_def MAX_GRACE_PERIOD_def poll_def sleep_def
      disconnect_filter cancel_and_await_def initial_def)

lemma lifespan_unfold:
  "lifespan_shutdown fsub now rs s =
     (case drain fsub MAX_GRACE_PERIOD rs
             (s\<lparr>shutdown_requested := True, shutdown_start_time := Some now,
                trace := trace s @ [ASetFlag, ARecordStart now]\<rparr>) of
        None \<Rightarrow> None
      | Some (Inl e) \<Rightarrow> Some (Inl e)
      | Some (Inr s2) \<Rightarrow>
          Some (Inr (cancel_and_await
            (if length (active_clients s2) > 0
             then s2\<lparr>active_clients :=
                       filter (\<lambda>p. fst p \<notin> set (dict_keys (active_clients s2))) (active_clients s2),
                     trace := trace s2 @ map AForce (dict_keys (active_clients s2))\<rparr>
             else s2))))"
  by (simp add: lifespan_shutdown_def Let_def force_disconnect_eq
      split: option.splits sum.splits)

lemma lifespan_terminates:
  assumes "\<exists>r\<in>set rs. fsub MAX_GRACE_PERIOD (fsub (snd r) now) \<le> 0"
  shows "lifespan_shutdown fsub now rs s \<noteq> None"
proof -
  let ?s1 = "s\<lparr>shutdown_requested := True, shutdown_start_time := Some now,
                 trace := trace s @ [ASetFlag, ARecordStart now]\<rparr>"
  have st: "shutdown_start_time ?s1 = Some now" by simp
  from drain_terminates [OF st assms, of MAX_GRACE_PERIOD]
  show ?thesis unfolding lifespan_unfold by (auto split: option.splits sum.splits)
qed

text \<open>
  C1, amended. Whatever the float subtraction does, the shutdown never raises,
  and it returns as soon as the remaining time computed from some clock
  reading is no longer positive; with exact arithmetic, as soon as a reading
  has reached the deadline. When it returns, the flag is set, the start
  time is the one recorded on entry, the broadcaster task has terminated, and
  its actions came in this order: set the flag, record the start time, poll
  the registry size (the first poll sees the broadcaster task as it was on
  entry), then only polls, sleeps and forced disconnects, and last the cancel
  of the broadcaster task and the wait for it. Every registry-size poll happens
  before the broadcaster task is cancelled.
\<close>

theorem cancel_after_polls:
  "lifespan_shutdown fsub now rs s \<noteq> Some (Inl e) \<and>
   ((\<exists>r\<in>set rs. fsub MAX_GRACE_PERIOD (fsub (snd r) now) \<le> 0) \<longrightarrow>
      lifespan_shutdown fsub now rs s \<noteq> None) \<and>
   ((\<exists>r\<in>set rs. MAX_GRACE_PERIOD \<le> snd r - now) \<longrightarrow>
      lifespan_shutdown (-) now rs s \<noteq> None) \<and>
   (lifespan_shutdown fsub now rs s = Some (Inr s') \<longrightarrow>
      shutdown_requested s' \<and> shutdown_start_time s' = Some now \<and> bg_status s' \<noteq> Pending \<and>
      (\<exists>mid. trace s' =
          trace s @ [ASetFlag, ARecordStart now, APoll (length (active_clients s)) (bg_status s)]
            @ mid @ [ACancel, AAwait] \<and>
        list_all middle_action mid))"
proof -
  let ?s1 = "s\<lparr>shutdown_requested := True, shutdown_start_time := Some now,
                 trace := trace s @ [ASetFlag, ARecordStart now]\<rparr>"
  let ?d = "drain fsub MAX_GRACE_PERIOD rs ?s1"
  have no_err: "?d \<noteq> Some (Inl e)"
    by (rule drain_no_error) simp
  have a: "lifespan_shutdown fsub now rs s \<noteq> Some (Inl e)"
    using no_err unfolding lifespan_unfold by (auto split: option.splits sum.splits)
  have b: "lifespan_shutdown fsub now rs s \<noteq> None"
    if "\<exists>r\<in>set rs. fsub MAX_GRACE_PERIOD (fsub (snd r) now) \<le> 0"
    using that by (rule lifespan_terminates)
  have b': "lifespan_shutdown (-) now rs s \<noteq> None"
    if "\<exists>r\<in>set rs. MAX_GRACE_PERIOD \<le> snd r - now"
  proof (rule lifespan_terminates)
    from that show "\<exists>r\<in>set rs. MAX_GRACE_PERIOD - (snd r - now) \<le> 0" by auto
  qed
  have c: "shutdown_requested s' \<and> shutdown_start_time s' = Some now \<and> bg_status s' \<noteq> Pending \<and>
      (\<exists>mid. trace s' =
          trace s @ [ASetFlag, ARecordStart now, APoll (length (active_clients s)) (bg_status s)]
            @ mid @ [ACancel, AAwait] \<and>
        list_all middle_action mid)"
    if res: "lifespan_shutdown fsub now rs s = Some (Inr s')"
  proof -
    from res obtain s2 where d: "?d = Some (Inr s2)"
      and s': "s' = cancel_and_await
             (if length (active_clients s2) > 0
              then s2\<lparr>active_clients :=
                        filter (\<lambda>p. fst p \<notin> set (dict_keys (active_clients s2))) (active_clients s2),
                      trace := trace s2 @ map AForce (dict_keys (active_clients s2))\<rparr>
              else s2)"
      unfolding lifespan_unfold by (auto split: option.splits sum.splits)
    from drain_trace [OF d] obtain mid where
      f: "shutdown_requested s2"
      and t: "shutdown_start_time s2 = Some now"
      and tr: "trace s2 = trace s @ [ASetFlag, ARecordStart now]
          @ APoll (length (active_clients s)) (bg_status s) # mid"
      and m: "list_all middle_action mid"
      by auto
    let ?mid = "mid @ (if length (active_clients s2) > 0
        then map AForce (dict_keys (active_clients s2)) else [])"
    have "trace s' =
        trace s @ [ASetFlag, ARecordStart now, APoll (length (active_clients s)) (bg_status s)]
          @ ?mid @ [ACancel, AAwait]"
      using tr by (simp add: s' cancel_and_await_def)
    moreover have "list_all middle_action ?mid" using m by simp
    moreover have "shutdown_requested s' \<and> shutdown_start_time s' = Some now \<and>
        bg_status s' \<noteq> Pending"
      using f t by (simp add: s' cancel_and_await_def)
    ultimately show ?thesis by blast
  qed
  from a b b' c show ?thesis by blast
qed

theorem cancel_after_polls_witness:
  "MAX_GRACE_PERIOD \<le> snd ([] :: event list, 1800 :: real) - 0 \<and>
   lifespan_shutdown (-) 0 [([Tick 3], 5), ([], 1800)] (initial\<lparr>active_clients := [(''s1'', 2)]\<rparr>) =
     Some (Inr (initial\<lparr>shutdown_requested := True, shutdown_start_time := Some 0,
       bg_status := Returned,
       trace := [ASetFlag, ARecordStart 0, APoll 1 Pending, ASleep 5, APoll 1 Returned,
                 ASleep 1800, APoll 1 Returned, AForce ''s1'', ACancel, AAwait]\<rparr>)) \<and>
   list_all middle_action
     [ASleep 5, APoll 1 Returned, ASleep 1800, APoll 1 Returned, AForce ''s1'']"
proof -
  let ?s = "initial\<lparr>active_clients := [(''s1'', 2)]\<rparr>"
  let ?rs = "[([Tick 3], 5), ([], 1800)] :: round list"
  let ?x = "initial\<lparr>shutdown_requested := True, shutdown_start_time := Some 0,
       bg_status := Returned,
       trace := [ASetFlag, ARecordStart 0, APoll 1 Pending, ASleep 5, APoll 1 Returned,
                 ASleep 1800, APoll 1 Returned, AForce ''s1'', ACancel, AAwait]\<rparr>"
  have h: "MAX_GRACE_PERIOD \<le> snd ([] :: event list, 1800 :: real) - 0"
    by (simp add: MAX_GRACE_PERIOD_def)
  then have ex: "\<exists>r\<in>set ?rs. MAX_GRACE_PERIOD \<le> snd r - 0" by simp
  from cancel_after_polls [of "(-)" 0 ?rs ?s] ex
  have some: "lifespan_shutdown (-) 0 ?rs ?s \<noteq> None" by blast
  have val: "lifespan_shutdown (-) 0 ?rs ?s = Some (Inr ?x)"
    by (simp add: lifespan_shutdown_def MAX_GRACE_PERIOD_def poll_def sleep_def
        broadcaster_tick_def broadcaster_body_def
        sio_disconnect_def disconnect_filter cancel_and_await_def initial_def dict_keys_def)
  have m: "list_all middle_action
     [ASleep 5, APoll 1 Returned, ASleep 1800, APoll 1 Returned, AForce ''s1'']"
    by simp
  from h some val m show ?thesis by blast
qed

section \<open>Draining with clients that stay\<close>
















lemma tick_clients [simp]: "active_clients (broadcaster_tick now s) = active_clients s"
  by (simp add: broadcaster_tick_def broadcaster_body_def sio_emit_def)
























end
